theory Spec2Isabelle
  imports Main "HOL-Library.Word"
begin

section \<open>Gate controller of \<open>tarea 2/codigo/main/main.c\<close>\<close>

text \<open>
  The program is a finite-state machine for a motorised gate.  A periodic timer callback
  (\<open>timer_cb\<close>) increments \<open>tick50ms\<close> and samples five input pins into the global \<open>io\<close>.
  Each state is a C function that performs its entry actions and then polls \<open>io\<close> in a
  \<open>while (true)\<close> loop, sleeping with \<open>vTaskDelay\<close> between polls, until a guard
  returns the next state; \<open>app_main\<close> dispatches on \<open>estado_actual\<close> forever.

  The embedding keeps the globals in one record that is passed through every function,
  together with the level last written to each output pin.  Every state function is
  split as the source is: its entry actions (\<open>f_.._entry\<close>), the body of its loop
  (\<open>f_.._guards\<close>: \<open>Some\<close> state for a \<open>return\<close>, \<open>None\<close> for falling through to the
  delay), and the blocking function that runs the loop.

  The environment is a list with one element per \<open>vTaskDelay\<close>: the pin levels seen by
  each timer callback that fires during that delay (none, one or several).  The timer
  is taken to fire during delays only, so one poll reads one value of \<open>io\<close> and of the
  tick.  A blocking function that has not returned when the list is used up yields
  \<open>Blocked\<close> with the globals at that moment; a function that never returns yields
  \<open>Blocked\<close> for every environment.
\<close>

subsection \<open>Types and globals\<close>

datatype estado_t =
  EST_INIT_CONFIG | EST_CERRANDO | EST_ABRIENDO | EST_ABIERTO | EST_CERRADO | EST_PARADO
  | EST_ERROR

datatype error_t = ERR_OK | ERR_DLSA | ERR_TIMEOUT

datatype gpio_num =
  PIN_LSA | PIN_LSC | PIN_FTC | PIN_PP | PIN_CA | PIN_MA | PIN_MC | PIN_LAMP

text \<open>The bit-field struct: one-bit fields are booleans, \<open>lamp\<close> has three bits.\<close>

record io_t =
  lsa :: bool
  lsc :: bool
  ftc :: bool
  pp :: bool
  ca :: bool
  ma :: bool
  mc :: bool
  lamp :: "3 word"

text \<open>
  The globals \<open>estado_actual\<close>, \<open>error_code\<close>, \<open>tick50ms\<close> and \<open>io\<close>, together with
  the level last written to every output pin (\<open>True\<close> is high).
\<close>

record machine =
  estado_actual :: estado_t
  error_code :: error_t
  tick50ms :: "32 word"
  io :: io_t
  gpio_out :: "gpio_num \<Rightarrow> bool"

type_synonym levels = "gpio_num \<Rightarrow> int"

type_synonym trace = "levels list list"

definition MAX_TICKS_3MIN :: "32 word" where
  "MAX_TICKS_3MIN = 3600"

subsection \<open>Timer callback and outputs\<close>

text \<open>\<open>timer_cb\<close>: \<open>lv\<close> is what \<open>gpio_get_level\<close> returns for each pin at that moment.\<close>

definition timer_cb :: "levels \<Rightarrow> machine \<Rightarrow> machine" where
  "timer_cb lv m =
     m\<lparr>tick50ms := tick50ms m + 1,
       io := (io m)\<lparr>lsa := (lv PIN_LSA = 0),
                    lsc := (lv PIN_LSC = 1),
                    ftc := (lv PIN_FTC = 1),
                    pp := (lv PIN_PP = 0),
                    ca := (lv PIN_CA = 1)\<rparr>\<rparr>"

definition gpio_set_level :: "gpio_num \<Rightarrow> 32 word \<Rightarrow> machine \<Rightarrow> machine" where
  "gpio_set_level pin v m = m\<lparr>gpio_out := (gpio_out m)(pin := (v \<noteq> 0))\<rparr>"

definition motor_parar :: "machine \<Rightarrow> machine" where
  "motor_parar m = gpio_set_level PIN_MC 0 (gpio_set_level PIN_MA 0 m)"

definition motor_abrir :: "machine \<Rightarrow> machine" where
  "motor_abrir m = gpio_set_level PIN_MC 0 (gpio_set_level PIN_MA 1 m)"

definition motor_cerrar :: "machine \<Rightarrow> machine" where
  "motor_cerrar m = gpio_set_level PIN_MC 1 (gpio_set_level PIN_MA 0 m)"

definition lampara :: "8 word \<Rightarrow> machine \<Rightarrow> machine" where
  "lampara e m =
     gpio_set_level PIN_LAMP (if e \<noteq> 0 then 1 else 0)
       (m\<lparr>io := (io m)\<lparr>lamp := ucast e\<rparr>\<rparr>)"

subsection \<open>Polling loops\<close>

text \<open>
  The result of a blocking state function: it returned the next state, leaving the rest
  of the environment, or it is still inside its loop when the environment ends.
\<close>

datatype outcome = Returned estado_t machine trace | Blocked machine

definition run_timer :: "levels list \<Rightarrow> machine \<Rightarrow> machine" where
  "run_timer d m = fold timer_cb d m"

text \<open>
  \<open>while (true) { body; vTaskDelay(..); }\<close> where \<open>body\<close> either returns a state
  (\<open>Some\<close>) or falls through to the delay (\<open>None\<close>).
\<close>

fun while_delay ::
  "(machine \<Rightarrow> estado_t option \<times> machine) \<Rightarrow> machine \<Rightarrow> trace \<Rightarrow> outcome" where
  "while_delay body m [] =
     (case body m of
        (Some e, m') \<Rightarrow> Returned e m' []
      | (None, m') \<Rightarrow> Blocked m')"
| "while_delay body m (d # ds) =
     (case body m of
        (Some e, m') \<Rightarrow> Returned e m' (d # ds)
      | (None, m') \<Rightarrow> while_delay body (run_timer d m') ds)"

subsection \<open>State functions\<close>

text \<open>
  \<open>f_init_config\<close> has no loop.  The five \<open>return\<close> statements are named so that the
  one taken can be told apart: lines 113, 117, 119, 120 and 121 of the source.
\<close>

datatype init_exit = EXIT_DLSA | EXIT_BOTH_OFF | EXIT_LSC | EXIT_LSA | EXIT_FALLBACK

definition init_exit_of :: "io_t \<Rightarrow> init_exit" where
  "init_exit_of i =
     (if lsa i \<and> lsc i then EXIT_DLSA
      else if \<not> lsa i \<and> \<not> lsc i then EXIT_BOTH_OFF
      else if lsc i then EXIT_LSC
      else if lsa i then EXIT_LSA
      else EXIT_FALLBACK)"

fun init_exit_result :: "init_exit \<Rightarrow> machine \<Rightarrow> estado_t \<times> machine" where
  "init_exit_result EXIT_DLSA m = (EST_ERROR, m\<lparr>error_code := ERR_DLSA\<rparr>)"
| "init_exit_result EXIT_BOTH_OFF m = (EST_CERRANDO, m)"
| "init_exit_result EXIT_LSC m = (EST_CERRADO, m)"
| "init_exit_result EXIT_LSA m = (EST_ABIERTO, m)"
| "init_exit_result EXIT_FALLBACK m = (EST_CERRADO, m)"

definition f_init_config_entry :: "machine \<Rightarrow> machine" where
  "f_init_config_entry m = (lampara 0 (motor_parar m))\<lparr>tick50ms := 0, error_code := ERR_OK\<rparr>"

definition f_init_config :: "machine \<Rightarrow> estado_t \<times> machine" where
  "f_init_config m =
     (let m' = f_init_config_entry m in init_exit_result (init_exit_of (io m')) m')"

definition f_cerrando_entry :: "machine \<Rightarrow> machine" where
  "f_cerrando_entry m = (lampara 2 (motor_cerrar m))\<lparr>tick50ms := 0\<rparr>"

definition f_cerrando_guards :: "machine \<Rightarrow> estado_t option \<times> machine" where
  "f_cerrando_guards m =
     (if lsa (io m) \<and> lsc (io m) then (Some EST_ERROR, m\<lparr>error_code := ERR_DLSA\<rparr>)
      else if ftc (io m) then (Some EST_ABRIENDO, m)
      else if lsc (io m) then (Some EST_CERRADO, m)
      else if tick50ms m > MAX_TICKS_3MIN then (Some EST_ERROR, m\<lparr>error_code := ERR_TIMEOUT\<rparr>)
      else (None, m))"

definition f_cerrando :: "machine \<Rightarrow> trace \<Rightarrow> outcome" where
  "f_cerrando m tr = while_delay f_cerrando_guards (f_cerrando_entry m) tr"

definition f_abriendo_entry :: "machine \<Rightarrow> machine" where
  "f_abriendo_entry m = (lampara 2 (motor_abrir m))\<lparr>tick50ms := 0\<rparr>"

definition f_abriendo_guards :: "machine \<Rightarrow> estado_t option \<times> machine" where
  "f_abriendo_guards m =
     (if lsa (io m) \<and> lsc (io m) then (Some EST_ERROR, m\<lparr>error_code := ERR_DLSA\<rparr>)
      else if lsa (io m) then (Some EST_ABIERTO, m)
      else if pp (io m) then (Some EST_PARADO, m)
      else if tick50ms m > MAX_TICKS_3MIN then (Some EST_ERROR, m\<lparr>error_code := ERR_TIMEOUT\<rparr>)
      else (None, m))"

definition f_abriendo :: "machine \<Rightarrow> trace \<Rightarrow> outcome" where
  "f_abriendo m tr = while_delay f_abriendo_guards (f_abriendo_entry m) tr"

definition f_abierto_entry :: "machine \<Rightarrow> machine" where
  "f_abierto_entry m = (lampara 0 (motor_parar m))\<lparr>tick50ms := 0\<rparr>"

definition f_abierto_guards :: "machine \<Rightarrow> estado_t option \<times> machine" where
  "f_abierto_guards m =
     (if ftc (io m) then (None, m\<lparr>tick50ms := 0\<rparr>)
      else if (pp (io m) \<or> ca (io m)) \<and> \<not> ftc (io m) then (Some EST_CERRANDO, m)
      else if lsa (io m) \<and> lsc (io m) then (Some EST_ERROR, m\<lparr>error_code := ERR_DLSA\<rparr>)
      else if tick50ms m > MAX_TICKS_3MIN then (Some EST_ERROR, m\<lparr>error_code := ERR_TIMEOUT\<rparr>)
      else (None, m))"

definition f_abierto :: "machine \<Rightarrow> trace \<Rightarrow> outcome" where
  "f_abierto m tr = while_delay f_abierto_guards (f_abierto_entry m) tr"

definition f_cerrado_entry :: "machine \<Rightarrow> machine" where
  "f_cerrado_entry m = lampara 0 (motor_parar m)"

definition f_cerrado_guards :: "machine \<Rightarrow> estado_t option \<times> machine" where
  "f_cerrado_guards m =
     (if pp (io m) \<or> ca (io m) then (Some EST_ABRIENDO, m)
      else if \<not> lsa (io m) \<and> \<not> lsc (io m) then (Some EST_CERRANDO, m)
      else if lsa (io m) \<and> lsc (io m) then (Some EST_ERROR, m\<lparr>error_code := ERR_DLSA\<rparr>)
      else (None, m))"

definition f_cerrado :: "machine \<Rightarrow> trace \<Rightarrow> outcome" where
  "f_cerrado m tr = while_delay f_cerrado_guards (f_cerrado_entry m) tr"

definition f_parado_entry :: "machine \<Rightarrow> machine" where
  "f_parado_entry m = lampara 3 (motor_parar m)"

definition f_parado_guards :: "machine \<Rightarrow> estado_t option \<times> machine" where
  "f_parado_guards m =
     (if pp (io m) \<and> \<not> lsc (io m) then (Some EST_CERRANDO, m)
      else if lsa (io m) \<and> \<not> ftc (io m) then (Some EST_ABRIENDO, m)
      else if lsa (io m) \<and> lsc (io m) then (Some EST_ERROR, m\<lparr>error_code := ERR_DLSA\<rparr>)
      else (None, m))"

definition f_parado :: "machine \<Rightarrow> trace \<Rightarrow> outcome" where
  "f_parado m tr = while_delay f_parado_guards (f_parado_entry m) tr"

text \<open>
  \<open>f_error\<close>: with \<open>ERR_DLSA\<close> it waits in \<open>while (io.lsa && io.lsc) vTaskDelay(..)\<close>
  and then returns; with any other code it reaches \<open>while (1) vTaskDelay(..)\<close>.
\<close>

definition f_error_entry :: "machine \<Rightarrow> machine" where
  "f_error_entry m = lampara 1 (motor_parar m)"

definition f_error_dlsa_wait :: "machine \<Rightarrow> estado_t option \<times> machine" where
  "f_error_dlsa_wait m =
     (if lsa (io m) \<and> lsc (io m) then (None, m) else (Some EST_INIT_CONFIG, m))"

definition f_error_grave :: "machine \<Rightarrow> estado_t option \<times> machine" where
  "f_error_grave m = (None, m)"

definition f_error :: "machine \<Rightarrow> trace \<Rightarrow> outcome" where
  "f_error m tr =
     (let m' = f_error_entry m in
      if error_code m' = ERR_DLSA then while_delay f_error_dlsa_wait m' tr
      else while_delay f_error_grave m' tr)"

subsection \<open>Main loop\<close>

text \<open>The \<open>switch\<close> of \<open>app_main\<close>.\<close>

definition dispatch :: "machine \<Rightarrow> trace \<Rightarrow> outcome" where
  "dispatch m tr =
     (case estado_actual m of
        EST_INIT_CONFIG \<Rightarrow> (case f_init_config m of (e, m') \<Rightarrow> Returned e m' tr)
      | EST_CERRANDO \<Rightarrow> f_cerrando m tr
      | EST_ABRIENDO \<Rightarrow> f_abriendo m tr
      | EST_ABIERTO \<Rightarrow> f_abierto m tr
      | EST_CERRADO \<Rightarrow> f_cerrado m tr
      | EST_PARADO \<Rightarrow> f_parado m tr
      | EST_ERROR \<Rightarrow> f_error m tr)"

lemma while_delay_length:
  "while_delay body m tr = Returned e m' tr' \<Longrightarrow> length tr' \<le> length tr"
proof (induction tr arbitrary: m)
  case Nil
  then show ?case by (auto split: prod.splits option.splits)
next
  case (Cons d ds)
  show ?case
  proof (cases "body m")
    case (Pair r m1)
    show ?thesis
    proof (cases r)
      case None
      with Pair Cons.prems have "while_delay body (run_timer d m1) ds = Returned e m' tr'"
        by simp
      then have "length tr' \<le> length ds" by (rule Cons.IH)
      then show ?thesis by simp
    next
      case (Some e0)
      with Pair Cons.prems show ?thesis by auto
    qed
  qed
qed

lemma dispatch_length:
  "dispatch m tr = Returned e m' tr' \<Longrightarrow> length tr' \<le> length tr"
  by (auto simp: dispatch_def f_cerrando_def f_abriendo_def f_abierto_def f_cerrado_def
        f_parado_def f_error_def Let_def
      split: estado_t.splits prod.splits if_splits dest: while_delay_length)

text \<open>
  \<open>while (true) { switch ..; vTaskDelay(10); }\<close>.  The result is the globals at the
  moment the environment ends: inside a state function's loop, or in the delay that
  follows its return.
\<close>

function app_main :: "machine \<Rightarrow> trace \<Rightarrow> machine" where
  "app_main m tr =
     (case dispatch m tr of
        Blocked m' \<Rightarrow> m'
      | Returned e m' tr' \<Rightarrow>
          (case tr' of
             [] \<Rightarrow> m'\<lparr>estado_actual := e\<rparr>
           | d # ds \<Rightarrow> app_main (run_timer d (m'\<lparr>estado_actual := e\<rparr>)) ds))"
  by pat_completeness auto
termination
  by (relation "measure (\<lambda>(m, tr). length tr)") (auto dest: dispatch_length)

text \<open>
  One poll of the current state, as \<open>app_main\<close> selects it: the loop body of the state
  function of \<open>estado_actual\<close> (for \<open>EST_INIT_CONFIG\<close> the whole function, which has no
  loop).  \<open>None\<close> means that the state function goes on waiting.
\<close>

definition poll_estado :: "machine \<Rightarrow> estado_t option \<times> machine" where
  "poll_estado m =
     (case estado_actual m of
        EST_INIT_CONFIG \<Rightarrow> (case f_init_config m of (e, m') \<Rightarrow> (Some e, m'))
      | EST_CERRANDO \<Rightarrow> f_cerrando_guards m
      | EST_ABRIENDO \<Rightarrow> f_abriendo_guards m
      | EST_ABIERTO \<Rightarrow> f_abierto_guards m
      | EST_CERRADO \<Rightarrow> f_cerrado_guards m
      | EST_PARADO \<Rightarrow> f_parado_guards m
      | EST_ERROR \<Rightarrow>
          (if error_code m = ERR_DLSA then f_error_dlsa_wait m else f_error_grave m))"

declare app_main.simps [simp del]

subsection \<open>Concrete inputs\<close>

text \<open>
  The globals as the C initialisers leave them, all outputs low, and pin levels built
  from the logical values of the five inputs (\<open>PIN_LSA\<close> and \<open>PIN_PP\<close> are active low).
\<close>

definition power_on :: machine where
  "power_on =
     \<lparr>estado_actual = EST_INIT_CONFIG, error_code = ERR_OK, tick50ms = 0,
      io = \<lparr>lsa = False, lsc = False, ftc = False, pp = False, ca = False,
            ma = False, mc = False, lamp = 0\<rparr>,
      gpio_out = (\<lambda>_. False)\<rparr>"

fun pins :: "bool \<Rightarrow> bool \<Rightarrow> bool \<Rightarrow> bool \<Rightarrow> bool \<Rightarrow> levels" where
  "pins a c f p r PIN_LSA = (if a then 0 else 1)"
| "pins a c f p r PIN_LSC = (if c then 1 else 0)"
| "pins a c f p r PIN_FTC = (if f then 1 else 0)"
| "pins a c f p r PIN_PP = (if p then 0 else 1)"
| "pins a c f p r PIN_CA = (if r then 1 else 0)"
| "pins a c f p r _ = 0"

text \<open>The globals with the five inputs, the tick and the codes set as given.\<close>

definition at_poll ::
  "estado_t \<Rightarrow> error_t \<Rightarrow> 32 word \<Rightarrow> bool \<Rightarrow> bool \<Rightarrow> bool \<Rightarrow> bool \<Rightarrow> bool \<Rightarrow> machine" where
  "at_poll s e t a c f p r =
     power_on\<lparr>estado_actual := s, error_code := e, tick50ms := t,
       io := (io power_on)\<lparr>lsa := a, lsc := c, ftc := f, pp := p, ca := r\<rparr>\<rparr>"

text \<open>
  The inputs of a closing gate whose photocell is then interrupted: one timer sample with
  every input inactive, then one with the photocell active.
\<close>

definition reversal_trace :: trace where
  "reversal_trace =
     [[pins False False False False False], [pins False False True False False]]"

section \<open>Properties\<close>

subsection \<open>Unfolding rules and basic facts\<close>

lemmas output_defs =
  gpio_set_level_def motor_parar_def motor_abrir_def motor_cerrar_def lampara_def

lemmas entry_defs =
  f_init_config_entry_def f_cerrando_entry_def f_abriendo_entry_def f_abierto_entry_def
  f_cerrado_entry_def f_parado_entry_def f_error_entry_def

lemmas guards_defs =
  f_cerrando_guards_def f_abriendo_guards_def f_abierto_guards_def f_cerrado_guards_def
  f_parado_guards_def f_error_dlsa_wait_def f_error_grave_def

lemmas input_defs = at_poll_def power_on_def


lemma io_f_init_config_entry [simp]:
  "lsa (io (f_init_config_entry m)) = lsa (io m)"
  "lsc (io (f_init_config_entry m)) = lsc (io m)"
  by (simp_all add: f_init_config_entry_def output_defs)

lemma error_code_f_init_config_entry [simp]:
  "error_code (f_init_config_entry m) = ERR_OK"
  by (simp add: f_init_config_entry_def)

lemma entry_keeps_inputs [simp]:
  "ftc (io (f_abierto_entry m)) = ftc (io m)"
  "lsa (io (f_error_entry m)) = lsa (io m)"
  "lsc (io (f_error_entry m)) = lsc (io m)"
  "error_code (f_abierto_entry m) = error_code m"
  "estado_actual (f_abierto_entry m) = estado_actual m"
  "error_code (f_error_entry m) = error_code m"
  "estado_actual (f_error_entry m) = estado_actual m"
  by (simp_all add: entry_defs output_defs)

lemma f_error_entry_outputs:
  "\<not> gpio_out (f_error_entry m) PIN_MA"
  "\<not> gpio_out (f_error_entry m) PIN_MC"
  "gpio_out (f_error_entry m) PIN_LAMP"
  "lamp (io (f_error_entry m)) = 1"
  by (simp_all add: f_error_entry_def output_defs)

text \<open>What each motor command leaves on the two drive pins.\<close>

lemma motor_commands:
  "\<not> gpio_out (motor_parar m) PIN_MA \<and> \<not> gpio_out (motor_parar m) PIN_MC"
  "gpio_out (motor_abrir m) PIN_MA \<and> \<not> gpio_out (motor_abrir m) PIN_MC"
  "\<not> gpio_out (motor_cerrar m) PIN_MA \<and> gpio_out (motor_cerrar m) PIN_MC"
  by (simp_all add: output_defs)

subsection \<open>Timer callback and polling loops\<close>

text \<open>The timer callback touches only the tick and the five input bits.\<close>

lemma timer_cb_keeps [simp]:
  "error_code (timer_cb lv m) = error_code m"
  "estado_actual (timer_cb lv m) = estado_actual m"
  "gpio_out (timer_cb lv m) = gpio_out m"
  "lamp (io (timer_cb lv m)) = lamp (io m)"
  by (simp_all add: timer_cb_def)

lemma run_timer_simps [simp]:
  "run_timer [] m = m"
  "run_timer (lv # d) m = run_timer d (timer_cb lv m)"
  by (simp_all add: run_timer_def)

lemma run_timer_keeps [simp]:
  "error_code (run_timer d m) = error_code m"
  "estado_actual (run_timer d m) = estado_actual m"
  "gpio_out (run_timer d m) = gpio_out m"
  "lamp (io (run_timer d m)) = lamp (io m)"
  by (induction d arbitrary: m) simp_all

lemma run_timer_inputs:
  "d \<noteq> [] \<Longrightarrow> lsa (io (run_timer d m)) = (last d PIN_LSA = 0)"
  "d \<noteq> [] \<Longrightarrow> lsc (io (run_timer d m)) = (last d PIN_LSC = 1)"
  "d \<noteq> [] \<Longrightarrow> ftc (io (run_timer d m)) = (last d PIN_FTC = 1)"
  by (induction d arbitrary: m) (simp_all add: timer_cb_def)

lemma run_timer_ftc_held:
  "ftc (io m) \<Longrightarrow> \<forall>lv\<in>set d. lv PIN_FTC = 1 \<Longrightarrow> ftc (io (run_timer d m))"
  by (cases "d = []") (simp_all add: run_timer_inputs)

lemma run_timer_limits_held:
  "lsa (io m) \<and> lsc (io m) \<Longrightarrow> d \<noteq> [] \<longrightarrow> last d PIN_LSA = 0 \<and> last d PIN_LSC = 1 \<Longrightarrow>
     lsa (io (run_timer d m)) \<and> lsc (io (run_timer d m))"
  by (cases "d = []") (simp_all add: run_timer_inputs)

text \<open>A loop whose body keeps waiting under an invariant that the timer preserves.\<close>

lemma while_delay_waits:
  assumes body: "\<And>x. I x \<Longrightarrow> fst (body x) = None \<and> I (snd (body x))"
    and timer: "\<And>x d. d \<in> set tr \<Longrightarrow> I x \<Longrightarrow> I (run_timer d x)"
    and start: "I m"
  shows "\<exists>m0. I m0 \<and> while_delay body m tr = Blocked (snd (body m0))"
  using timer start
proof (induction tr arbitrary: m)
  case Nil
  from body [OF Nil.prems(2)] have "fst (body m) = None" by simp
  then have "while_delay body m [] = Blocked (snd (body m))"
    by (cases "body m") simp
  with Nil.prems(2) show ?case by blast
next
  case (Cons d ds)
  from body [OF Cons.prems(2)] have w: "fst (body m) = None" and i: "I (snd (body m))"
    by simp_all
  from w have step: "while_delay body m (d # ds) = while_delay body (run_timer d (snd (body m))) ds"
    by (cases "body m") simp
  have "I (run_timer d (snd (body m)))"
    using Cons.prems(1) i by simp
  moreover have "\<And>x d'. d' \<in> set ds \<Longrightarrow> I x \<Longrightarrow> I (run_timer d' x)"
    using Cons.prems(1) by simp
  ultimately have "\<exists>m0. I m0 \<and> while_delay body (run_timer d (snd (body m))) ds = Blocked (snd (body m0))"
    using Cons.IH by blast
  with step show ?case by simp
qed

lemma while_delay_waits_then:
  assumes body: "\<And>x. I x \<Longrightarrow> fst (body x) = None \<and> I (snd (body x))"
    and timer: "\<And>x d. d \<in> set pre \<Longrightarrow> I x \<Longrightarrow> I (run_timer d x)"
    and start: "I m"
  shows "\<exists>m0. I m0 \<and>
           while_delay body m (pre @ d # rest) = while_delay body (run_timer d (snd (body m0))) rest"
  using timer start
proof (induction pre arbitrary: m)
  case Nil
  from body [OF Nil.prems(2)] have "fst (body m) = None" by simp
  then have "while_delay body m ([] @ d # rest) = while_delay body (run_timer d (snd (body m))) rest"
    by (cases "body m") simp
  with Nil.prems(2) show ?case by blast
next
  case (Cons p ps)
  from body [OF Cons.prems(2)] have w: "fst (body m) = None" and i: "I (snd (body m))"
    by simp_all
  from w have step: "while_delay body m ((p # ps) @ d # rest)
      = while_delay body (run_timer p (snd (body m))) (ps @ d # rest)"
    by (cases "body m") simp
  have "I (run_timer p (snd (body m)))"
    using Cons.prems(1) i by simp
  moreover have "\<And>x d'. d' \<in> set ps \<Longrightarrow> I x \<Longrightarrow> I (run_timer d' x)"
    using Cons.prems(1) by simp
  ultimately have "\<exists>m0. I m0 \<and> while_delay body (run_timer p (snd (body m))) (ps @ d # rest)
      = while_delay body (run_timer d (snd (body m0))) rest"
    using Cons.IH by blast
  with step show ?case by simp
qed

lemma while_delay_returns:
  "body m = (Some e, m') \<Longrightarrow> while_delay body m tr = Returned e m' tr"
  by (cases tr) simp_all

text \<open>The loops never write a pin: after a loop the pins are as its entry left them.\<close>

lemma while_delay_gpio_out:
  assumes body: "\<And>x. gpio_out (snd (body x)) = gpio_out x"
  shows "while_delay body m tr = Blocked m' \<Longrightarrow> gpio_out m' = gpio_out m"
    and "while_delay body m tr = Returned e m' tr' \<Longrightarrow> gpio_out m' = gpio_out m"
proof (induction tr arbitrary: m)
  case Nil
  {
    case 1
    then show ?case using body [of m] by (cases "body m") (auto split: option.splits)
  next
    case 2
    then show ?case using body [of m] by (cases "body m") (auto split: option.splits)
  }
next
  case (Cons d ds)
  {
    case 1
    then show ?case using body [of m] Cons.IH(1)
      by (cases "body m") (auto split: option.splits)
  next
    case 2
    then show ?case using body [of m] Cons.IH(2)
      by (cases "body m") (auto split: option.splits)
  }
qed

lemma guards_keep_gpio_out:
  "gpio_out (snd (f_cerrando_guards x)) = gpio_out x"
  "gpio_out (snd (f_abriendo_guards x)) = gpio_out x"
  "gpio_out (snd (f_abierto_guards x)) = gpio_out x"
  "gpio_out (snd (f_cerrado_guards x)) = gpio_out x"
  "gpio_out (snd (f_parado_guards x)) = gpio_out x"
  "gpio_out (snd (f_error_dlsa_wait x)) = gpio_out x"
  "gpio_out (snd (f_error_grave x)) = gpio_out x"
  by (simp_all add: guards_defs)

subsection \<open>Contradictory limits (C1)\<close>

text \<open>
  Claim C1 as stated fails: in Closed with both limits active and the push button
  pressed, the poll returns \<open>EST_ABRIENDO\<close> and the error code stays \<open>ERR_OK\<close>,
  since \<open>f_cerrado\<close> tests the commands before the limits.
\<close>

theorem f_cerrado_command_first_counterexample:
  "lsa (io (at_poll EST_CERRADO ERR_OK 0 True True False True False)) \<and>
   lsc (io (at_poll EST_CERRADO ERR_OK 0 True True False True False)) \<and>
   estado_actual (at_poll EST_CERRADO ERR_OK 0 True True False True False) = EST_CERRADO \<and>
   poll_estado (at_poll EST_CERRADO ERR_OK 0 True True False True False)
     = (Some EST_ABRIENDO, at_poll EST_CERRADO ERR_OK 0 True True False True False) \<and>
   f_cerrado (at_poll EST_CERRADO ERR_OK 0 True True False True False) []
     = Returned EST_ABRIENDO
         (f_cerrado_entry (at_poll EST_CERRADO ERR_OK 0 True True False True False)) [] \<and>
   error_code (f_cerrado_entry (at_poll EST_CERRADO ERR_OK 0 True True False True False))
     = ERR_OK"
  by (simp add: poll_estado_def f_cerrado_def f_cerrado_guards_def f_cerrado_entry_def
      output_defs input_defs)

text \<open>
  Claim C1, amended.  With both limits active, a poll in any state other than
  \<open>EST_ERROR\<close> returns \<open>EST_ERROR\<close> with \<open>ERR_DLSA\<close> always in Initializing, Closing
  and Opening, where that guard is the first one; in Open exactly when photocell, push
  button and remote command are all inactive; in Closed exactly when push button and
  remote command are inactive; in Stopped exactly when the photocell is active.
\<close>

theorem contradictory_limits_priority:
  "lsa (io m) \<and> lsc (io m) \<and> estado_actual m \<noteq> EST_ERROR \<longrightarrow>
     (fst (poll_estado m) = Some EST_ERROR \<and> error_code (snd (poll_estado m)) = ERR_DLSA)
       = (case estado_actual m of
            EST_ABIERTO \<Rightarrow> \<not> ftc (io m) \<and> \<not> pp (io m) \<and> \<not> ca (io m)
          | EST_CERRADO \<Rightarrow> \<not> pp (io m) \<and> \<not> ca (io m)
          | EST_PARADO \<Rightarrow> ftc (io m)
          | _ \<Rightarrow> True)"
proof (intro impI, elim conjE)
  assume a: "lsa (io m)" and c: "lsc (io m)" and s: "estado_actual m \<noteq> EST_ERROR"
  show "(fst (poll_estado m) = Some EST_ERROR \<and> error_code (snd (poll_estado m)) = ERR_DLSA)
       = (case estado_actual m of
            EST_ABIERTO \<Rightarrow> \<not> ftc (io m) \<and> \<not> pp (io m) \<and> \<not> ca (io m)
          | EST_CERRADO \<Rightarrow> \<not> pp (io m) \<and> \<not> ca (io m)
          | EST_PARADO \<Rightarrow> ftc (io m)
          | _ \<Rightarrow> True)"
  proof (cases "estado_actual m")
    case EST_INIT_CONFIG
    with a c show ?thesis
      by (simp add: poll_estado_def f_init_config_def init_exit_of_def Let_def)
  next
    case EST_CERRANDO
    with a c show ?thesis by (simp add: poll_estado_def f_cerrando_guards_def)
  next
    case EST_ABRIENDO
    with a c show ?thesis by (simp add: poll_estado_def f_abriendo_guards_def)
  next
    case EST_ABIERTO
    with a c show ?thesis by (auto simp: poll_estado_def f_abierto_guards_def)
  next
    case EST_CERRADO
    with a c show ?thesis by (auto simp: poll_estado_def f_cerrado_guards_def)
  next
    case EST_PARADO
    with a c show ?thesis by (auto simp: poll_estado_def f_parado_guards_def)
  next
    case EST_ERROR
    with s show ?thesis by simp
  qed
qed

text \<open>Opening with both commands asserted, and Stopped with the photocell active.\<close>

theorem contradictory_limits_priority_witness:
  "fst (poll_estado (at_poll EST_ABRIENDO ERR_OK 3 True True False True True)) = Some EST_ERROR \<and>
   error_code (snd (poll_estado (at_poll EST_ABRIENDO ERR_OK 3 True True False True True)))
     = ERR_DLSA \<and>
   fst (poll_estado (at_poll EST_PARADO ERR_OK 3 True True True False False)) = Some EST_ERROR"
  using contradictory_limits_priority [of "at_poll EST_ABRIENDO ERR_OK 3 True True False True True"]
    contradictory_limits_priority [of "at_poll EST_PARADO ERR_OK 3 True True True False False"]
  by (simp add: input_defs)

subsection \<open>Motor outputs (C2)\<close>

text \<open>
  Claim C2 at a concrete run.  From power-on with every input inactive the controller
  starts closing (\<open>PIN_MC\<close> high); the photocell then makes \<open>f_cerrando\<close> return
  \<open>EST_ABRIENDO\<close> with \<open>PIN_MC\<close> still high.  The next action is \<open>motor_abrir\<close>
  in \<open>f_abriendo\<close>, which writes \<open>PIN_MA\<close> high before it writes \<open>PIN_MC\<close> low:
  after its first write both drive pins are high.
\<close>

theorem motor_abrir_overlap:
  "estado_actual (app_main power_on reversal_trace) = EST_ABRIENDO \<and>
   \<not> gpio_out (app_main power_on reversal_trace) PIN_MA \<and>
   gpio_out (app_main power_on reversal_trace) PIN_MC \<and>
   motor_abrir (app_main power_on reversal_trace)
     = gpio_set_level PIN_MC 0 (gpio_set_level PIN_MA 1 (app_main power_on reversal_trace)) \<and>
   gpio_out (gpio_set_level PIN_MA 1 (app_main power_on reversal_trace)) PIN_MA \<and>
   gpio_out (gpio_set_level PIN_MA 1 (app_main power_on reversal_trace)) PIN_MC"
proof -
  have run: "app_main power_on reversal_trace =
      (f_cerrando_entry (run_timer [pins False False False False False]
         ((f_init_config_entry power_on)\<lparr>estado_actual := EST_CERRANDO\<rparr>)))
       \<lparr>tick50ms := 1,
        io := (io (f_cerrando_entry power_on))\<lparr>ftc := True\<rparr>,
        estado_actual := EST_ABRIENDO\<rparr>"
    by (simp add: reversal_trace_def app_main.simps dispatch_def f_init_config_def init_exit_of_def
        f_cerrando_def f_cerrando_guards_def MAX_TICKS_3MIN_def entry_defs output_defs
        timer_cb_def power_on_def)
  show ?thesis
    unfolding run by (simp add: entry_defs output_defs)
qed

lemma entry_drives_exclusive:
  "\<not> (gpio_out (f_init_config_entry m) PIN_MA \<and> gpio_out (f_init_config_entry m) PIN_MC)"
  "\<not> (gpio_out (f_cerrando_entry m) PIN_MA \<and> gpio_out (f_cerrando_entry m) PIN_MC)"
  "\<not> (gpio_out (f_abriendo_entry m) PIN_MA \<and> gpio_out (f_abriendo_entry m) PIN_MC)"
  "\<not> (gpio_out (f_abierto_entry m) PIN_MA \<and> gpio_out (f_abierto_entry m) PIN_MC)"
  "\<not> (gpio_out (f_cerrado_entry m) PIN_MA \<and> gpio_out (f_cerrado_entry m) PIN_MC)"
  "\<not> (gpio_out (f_parado_entry m) PIN_MA \<and> gpio_out (f_parado_entry m) PIN_MC)"
  "\<not> (gpio_out (f_error_entry m) PIN_MA \<and> gpio_out (f_error_entry m) PIN_MC)"
  by (simp_all add: entry_defs output_defs)

lemma f_init_config_gpio_out:
  "gpio_out (snd (f_init_config m)) = gpio_out (f_init_config_entry m)"
  by (cases "init_exit_of (io (f_init_config_entry m))") (simp_all add: f_init_config_def Let_def)

lemma dispatch_drives_exclusive:
  assumes "dispatch m tr = Blocked m' \<or> dispatch m tr = Returned e m' tr'"
  shows "\<not> (gpio_out m' PIN_MA \<and> gpio_out m' PIN_MC)"
proof (cases "estado_actual m")
  case EST_INIT_CONFIG
  with assms have "m' = snd (f_init_config m)"
    by (auto simp: dispatch_def split: prod.splits)
  then show ?thesis
    using entry_drives_exclusive(1) [of m] by (simp add: f_init_config_gpio_out)
next
  case EST_CERRANDO
  with assms have "gpio_out m' = gpio_out (f_cerrando_entry m)"
    by (auto simp: dispatch_def f_cerrando_def
        dest: while_delay_gpio_out [OF guards_keep_gpio_out(1)])
  then show ?thesis using entry_drives_exclusive(2) [of m] by simp
next
  case EST_ABRIENDO
  with assms have "gpio_out m' = gpio_out (f_abriendo_entry m)"
    by (auto simp: dispatch_def f_abriendo_def
        dest: while_delay_gpio_out [OF guards_keep_gpio_out(2)])
  then show ?thesis using entry_drives_exclusive(3) [of m] by simp
next
  case EST_ABIERTO
  with assms have "gpio_out m' = gpio_out (f_abierto_entry m)"
    by (auto simp: dispatch_def f_abierto_def
        dest: while_delay_gpio_out [OF guards_keep_gpio_out(3)])
  then show ?thesis using entry_drives_exclusive(4) [of m] by simp
next
  case EST_CERRADO
  with assms have "gpio_out m' = gpio_out (f_cerrado_entry m)"
    by (auto simp: dispatch_def f_cerrado_def
        dest: while_delay_gpio_out [OF guards_keep_gpio_out(4)])
  then show ?thesis using entry_drives_exclusive(5) [of m] by simp
next
  case EST_PARADO
  with assms have "gpio_out m' = gpio_out (f_parado_entry m)"
    by (auto simp: dispatch_def f_parado_def
        dest: while_delay_gpio_out [OF guards_keep_gpio_out(5)])
  then show ?thesis using entry_drives_exclusive(6) [of m] by simp
next
  case EST_ERROR
  with assms have "gpio_out m' = gpio_out (f_error_entry m)"
    by (auto simp: dispatch_def f_error_def Let_def split: if_splits
        dest: while_delay_gpio_out [OF guards_keep_gpio_out(6)]
          while_delay_gpio_out [OF guards_keep_gpio_out(7)])
  then show ?thesis using entry_drives_exclusive(7) [of m] by simp
qed

text \<open>
  Once a motor command is complete the drive pins are never both high: whenever the
  controller polls or waits, for every start and every environment.
\<close>

lemma app_main_drives_exclusive:
  "\<not> (gpio_out (app_main m tr) PIN_MA \<and> gpio_out (app_main m tr) PIN_MC)"
proof (induction m tr rule: app_main.induct)
  case (1 m tr)
  show ?case
  proof (cases "dispatch m tr")
    case (Blocked m')
    then show ?thesis
      using dispatch_drives_exclusive [of m tr m'] by (simp add: app_main.simps)
  next
    case (Returned e m' tr')
    show ?thesis
    proof (cases tr')
      case Nil
      with Returned show ?thesis
        using dispatch_drives_exclusive [of m tr m' e tr'] by (simp add: app_main.simps)
    next
      case (Cons d ds)
      with Returned "1.IH" [of e m' tr' d ds] show ?thesis
        by (simp add: app_main.simps)
    qed
  qed
qed

subsection \<open>Photocell hold in Open (C3)\<close>

text \<open>
  Claim C3.  A poll in Open with the photocell active goes on waiting in Open and sets
  the tick to zero, whatever the push button and the remote command are.  If the
  photocell is active when \<open>f_abierto\<close> is entered and in every timer sample that
  follows, \<open>f_abierto\<close> never returns: for every such environment it is still in its
  loop, with the tick at zero and the error code untouched, so no timeout is raised;
  a main loop that is in \<open>EST_ABIERTO\<close> stays there.
\<close>

theorem f_abierto_photocell_hold:
  "(ftc (io p) \<longrightarrow> f_abierto_guards p = (None, p\<lparr>tick50ms := 0\<rparr>)) \<and>
   (ftc (io m) \<and> (\<forall>d\<in>set tr. \<forall>lv\<in>set d. lv PIN_FTC = 1) \<longrightarrow>
      (\<exists>m'. f_abierto m tr = Blocked m' \<and> tick50ms m' = 0 \<and> ftc (io m') \<and>
            error_code m' = error_code m \<and>
            (estado_actual m = EST_ABIERTO \<longrightarrow>
               app_main m tr = m' \<and> estado_actual m' = EST_ABIERTO)))"
proof -
  have poll: "f_abierto_guards p = (None, p\<lparr>tick50ms := 0\<rparr>)" if "ftc (io p)" for p
    using that by (simp add: f_abierto_guards_def)
  have hold: "\<exists>m'. f_abierto m tr = Blocked m' \<and> tick50ms m' = 0 \<and> ftc (io m') \<and>
            error_code m' = error_code m \<and>
            (estado_actual m = EST_ABIERTO \<longrightarrow>
               app_main m tr = m' \<and> estado_actual m' = EST_ABIERTO)"
    if start: "ftc (io m)" and env: "\<forall>d\<in>set tr. \<forall>lv\<in>set d. lv PIN_FTC = 1"
  proof -
    let ?I = "\<lambda>x::machine. ftc (io x) \<and> error_code x = error_code m \<and>
          estado_actual x = estado_actual m"
    have "\<exists>m0. ?I m0 \<and>
        while_delay f_abierto_guards (f_abierto_entry m) tr = Blocked (snd (f_abierto_guards m0))"
    proof (rule while_delay_waits)
      fix x assume "?I x"
      then show "fst (f_abierto_guards x) = None \<and> ?I (snd (f_abierto_guards x))"
        by (simp add: poll)
    next
      fix x d assume "d \<in> set tr" and "?I x"
      with env show "?I (run_timer d x)"
        by (simp add: run_timer_ftc_held)
    next
      from start show "?I (f_abierto_entry m)" by simp
    qed
    then obtain m0 where i: "?I m0"
      and b: "f_abierto m tr = Blocked (snd (f_abierto_guards m0))"
      by (auto simp: f_abierto_def)
    from b have "app_main m tr = snd (f_abierto_guards m0)" if "estado_actual m = EST_ABIERTO"
      using that by (simp add: app_main.simps dispatch_def)
    with i b show ?thesis by (simp add: poll)
  qed
  from poll hold show ?thesis by blast
qed

text \<open>Photocell held over three delays while the button and the command come and go.\<close>

theorem f_abierto_photocell_hold_witness:
  "\<exists>m'. f_abierto (at_poll EST_ABIERTO ERR_OK 9 True False True True True)
          [[pins True False True True False], [], [pins True False True False True]]
        = Blocked m' \<and> tick50ms m' = 0 \<and> estado_actual m' = EST_ABIERTO"
  using f_abierto_photocell_hold
    [of "at_poll EST_ABIERTO ERR_OK 9 True False True True True"
        "at_poll EST_ABIERTO ERR_OK 9 True False True True True"
        "[[pins True False True True False], [], [pins True False True False True]]"]
  by (auto simp: input_defs)

subsection \<open>Recovery from contradictory limits (C4)\<close>

text \<open>
  Claim C4 as stated fails.  \<open>f_error\<close> does not see every snapshot: it polls \<open>io\<close>
  once per delay and reads what the last timer callback left there.  From Fault with
  \<open>ERR_DLSA\<close> and both limits active, a delay in which the timer first samples the open
  limit inactive and the closed limit active and then samples both limits active
  again leaves \<open>f_error\<close> in its loop, still with \<open>ERR_DLSA\<close>.  A delay in which it
  first samples the open limit inactive and the closed limit active and then the open
  limit active and the closed limit inactive makes \<open>f_error\<close> return
  \<open>EST_INIT_CONFIG\<close>, and \<open>f_init_config\<close> then returns \<open>EST_ABIERTO\<close>, not
  \<open>EST_CERRADO\<close>.
\<close>

theorem f_error_dlsa_overwritten_sample_counterexample:
  "error_code (at_poll EST_ERROR ERR_DLSA 0 True True False False False) = ERR_DLSA \<and>
   f_error (at_poll EST_ERROR ERR_DLSA 0 True True False False False)
       [[pins False True False False False, pins True True False False False]]
     = Blocked (run_timer [pins False True False False False, pins True True False False False]
         (f_error_entry (at_poll EST_ERROR ERR_DLSA 0 True True False False False))) \<and>
   error_code (run_timer [pins False True False False False, pins True True False False False]
         (f_error_entry (at_poll EST_ERROR ERR_DLSA 0 True True False False False))) = ERR_DLSA \<and>
   f_error (at_poll EST_ERROR ERR_DLSA 0 True True False False False)
       [[pins False True False False False, pins True False False False False]]
     = Returned EST_INIT_CONFIG
         (run_timer [pins False True False False False, pins True False False False False]
           (f_error_entry (at_poll EST_ERROR ERR_DLSA 0 True True False False False))) [] \<and>
   fst (f_init_config
         ((run_timer [pins False True False False False, pins True False False False False]
             (f_error_entry (at_poll EST_ERROR ERR_DLSA 0 True True False False False)))
          \<lparr>estado_actual := EST_INIT_CONFIG\<rparr>)) = EST_ABIERTO"
  by (simp add: f_error_def Let_def f_error_dlsa_wait_def f_error_entry_def f_init_config_def
      f_init_config_entry_def init_exit_of_def timer_cb_def output_defs input_defs)

text \<open>
  Claim C4, amended to the snapshots that \<open>f_error\<close> polls.  With \<open>ERR_DLSA\<close>: as long
  as both limits are active at entry and in the last timer sample of every delay in
  which the timer fires, \<open>f_error\<close> stays in its loop.  If they are not both active at
  entry it returns \<open>EST_INIT_CONFIG\<close> at once; if they were, it returns
  \<open>EST_INIT_CONFIG\<close> at the first poll after a delay whose last sample has not both
  limits active.  \<open>f_init_config\<close>, run on the globals so returned, leaves the error
  code at \<open>ERR_OK\<close>, and when that polled sample has the open limit inactive and the
  closed limit active it returns \<open>EST_CERRADO\<close>.  The error code is still \<open>ERR_DLSA\<close>
  when \<open>f_error\<close> returns; it is the entry of \<open>f_init_config\<close> that clears it.
\<close>

theorem f_error_dlsa_recovery:
  "error_code m = ERR_DLSA \<longrightarrow>
     (lsa (io m) \<and> lsc (io m) \<and> (\<forall>d\<in>set tr. d \<noteq> [] \<longrightarrow> last d PIN_LSA = 0 \<and> last d PIN_LSC = 1) \<longrightarrow>
        (\<exists>m'. f_error m tr = Blocked m' \<and> error_code m' = ERR_DLSA \<and>
              lsa (io m') \<and> lsc (io m'))) \<and>
     (\<not> (lsa (io m) \<and> lsc (io m)) \<longrightarrow>
        f_error m tr = Returned EST_INIT_CONFIG (f_error_entry m) tr) \<and>
     (lsa (io m) \<and> lsc (io m) \<and> (\<forall>d\<in>set tr. d \<noteq> [] \<longrightarrow> last d PIN_LSA = 0 \<and> last d PIN_LSC = 1) \<and>
      d \<noteq> [] \<and> \<not> (last d PIN_LSA = 0 \<and> last d PIN_LSC = 1) \<longrightarrow>
        (\<exists>m'. f_error m (tr @ d # rest) = Returned EST_INIT_CONFIG m' rest \<and>
              lsa (io m') = (last d PIN_LSA = 0) \<and> lsc (io m') = (last d PIN_LSC = 1) \<and>
              error_code (snd (f_init_config (m'\<lparr>estado_actual := EST_INIT_CONFIG\<rparr>))) = ERR_OK \<and>
              (last d PIN_LSA \<noteq> 0 \<and> last d PIN_LSC = 1 \<longrightarrow>
                 fst (f_init_config (m'\<lparr>estado_actual := EST_INIT_CONFIG\<rparr>)) = EST_CERRADO)))"
proof (intro impI)
  assume e: "error_code m = ERR_DLSA"
  let ?I = "\<lambda>x::machine. error_code x = ERR_DLSA \<and> lsa (io x) \<and> lsc (io x)"
  let ?held = "\<forall>d\<in>set tr. d \<noteq> [] \<longrightarrow> last d PIN_LSA = 0 \<and> last d PIN_LSC = 1"
  have body: "fst (f_error_dlsa_wait x) = None \<and> ?I (snd (f_error_dlsa_wait x))" if "?I x" for x
    using that by (simp add: f_error_dlsa_wait_def)
  have timer: "?I (run_timer d' x)" if "d' \<in> set tr" "?I x" "?held" for d' x
    using that by (simp add: run_timer_limits_held)
  have loop: "f_error m t = while_delay f_error_dlsa_wait (f_error_entry m) t" for t
    using e by (simp add: f_error_def Let_def)
  have hold: "\<exists>m'. f_error m tr = Blocked m' \<and> error_code m' = ERR_DLSA \<and>
              lsa (io m') \<and> lsc (io m')"
    if h: "lsa (io m) \<and> lsc (io m) \<and> ?held"
  proof -
    have "\<exists>m0. ?I m0 \<and> while_delay f_error_dlsa_wait (f_error_entry m) tr
        = Blocked (snd (f_error_dlsa_wait m0))"
    proof (rule while_delay_waits)
      fix x assume "?I x" then show "fst (f_error_dlsa_wait x) = None \<and> ?I (snd (f_error_dlsa_wait x))"
        by (rule body)
    next
      fix x d' assume "d' \<in> set tr" "?I x"
      with h show "?I (run_timer d' x)" by (simp add: timer)
    next
      from e h show "?I (f_error_entry m)" by simp
    qed
    then obtain m0 where "?I m0" and "f_error m tr = Blocked (snd (f_error_dlsa_wait m0))"
      by (auto simp: loop)
    then show ?thesis by (simp add: f_error_dlsa_wait_def)
  qed
  have now: "f_error m tr = Returned EST_INIT_CONFIG (f_error_entry m) tr"
    if "\<not> (lsa (io m) \<and> lsc (io m))"
  proof -
    from that have "f_error_dlsa_wait (f_error_entry m) = (Some EST_INIT_CONFIG, f_error_entry m)"
      by (simp add: f_error_dlsa_wait_def)
    then show ?thesis by (simp add: loop while_delay_returns)
  qed
  have later: "\<exists>m'. f_error m (tr @ d # rest) = Returned EST_INIT_CONFIG m' rest \<and>
              lsa (io m') = (last d PIN_LSA = 0) \<and> lsc (io m') = (last d PIN_LSC = 1) \<and>
              error_code (snd (f_init_config (m'\<lparr>estado_actual := EST_INIT_CONFIG\<rparr>))) = ERR_OK \<and>
              (last d PIN_LSA \<noteq> 0 \<and> last d PIN_LSC = 1 \<longrightarrow>
                 fst (f_init_config (m'\<lparr>estado_actual := EST_INIT_CONFIG\<rparr>)) = EST_CERRADO)"
    if h: "lsa (io m) \<and> lsc (io m) \<and> ?held \<and>
      d \<noteq> [] \<and> \<not> (last d PIN_LSA = 0 \<and> last d PIN_LSC = 1)"
  proof -
    have "\<exists>m0. ?I m0 \<and> while_delay f_error_dlsa_wait (f_error_entry m) (tr @ d # rest)
        = while_delay f_error_dlsa_wait (run_timer d (snd (f_error_dlsa_wait m0))) rest"
    proof (rule while_delay_waits_then)
      fix x assume "?I x" then show "fst (f_error_dlsa_wait x) = None \<and> ?I (snd (f_error_dlsa_wait x))"
        by (rule body)
    next
      fix x d' assume "d' \<in> set tr" "?I x"
      with h show "?I (run_timer d' x)" by (simp add: timer)
    next
      from e h show "?I (f_error_entry m)" by simp
    qed
    then obtain m0 where i: "?I m0" and s: "f_error m (tr @ d # rest)
        = while_delay f_error_dlsa_wait (run_timer d (snd (f_error_dlsa_wait m0))) rest"
      by (auto simp: loop)
    define m1 where "m1 = run_timer d (snd (f_error_dlsa_wait m0))"
    from h have a: "lsa (io m1) = (last d PIN_LSA = 0)" and c: "lsc (io m1) = (last d PIN_LSC = 1)"
      by (simp_all add: m1_def run_timer_inputs)
    with h have "f_error_dlsa_wait m1 = (Some EST_INIT_CONFIG, m1)"
      by (simp add: f_error_dlsa_wait_def)
    then have r: "f_error m (tr @ d # rest) = Returned EST_INIT_CONFIG m1 rest"
      using s by (simp add: m1_def while_delay_returns)
    have k: "error_code (snd (f_init_config (m1\<lparr>estado_actual := EST_INIT_CONFIG\<rparr>))) = ERR_OK"
      using h a c by (auto simp: f_init_config_def Let_def init_exit_of_def)
    have z: "fst (f_init_config (m1\<lparr>estado_actual := EST_INIT_CONFIG\<rparr>)) = EST_CERRADO"
      if "last d PIN_LSA \<noteq> 0 \<and> last d PIN_LSC = 1"
      using that a c by (simp add: f_init_config_def Let_def init_exit_of_def)
    from r a c k z show ?thesis by blast
  qed
  from hold now later show "(lsa (io m) \<and> lsc (io m) \<and> ?held \<longrightarrow>
        (\<exists>m'. f_error m tr = Blocked m' \<and> error_code m' = ERR_DLSA \<and>
              lsa (io m') \<and> lsc (io m'))) \<and>
     (\<not> (lsa (io m) \<and> lsc (io m)) \<longrightarrow>
        f_error m tr = Returned EST_INIT_CONFIG (f_error_entry m) tr) \<and>
     (lsa (io m) \<and> lsc (io m) \<and> ?held \<and>
      d \<noteq> [] \<and> \<not> (last d PIN_LSA = 0 \<and> last d PIN_LSC = 1) \<longrightarrow>
        (\<exists>m'. f_error m (tr @ d # rest) = Returned EST_INIT_CONFIG m' rest \<and>
              lsa (io m') = (last d PIN_LSA = 0) \<and> lsc (io m') = (last d PIN_LSC = 1) \<and>
              error_code (snd (f_init_config (m'\<lparr>estado_actual := EST_INIT_CONFIG\<rparr>))) = ERR_OK \<and>
              (last d PIN_LSA \<noteq> 0 \<and> last d PIN_LSC = 1 \<longrightarrow>
                 fst (f_init_config (m'\<lparr>estado_actual := EST_INIT_CONFIG\<rparr>)) = EST_CERRADO)))"
    by blast
qed

text \<open>
  A delay whose last sample has both limits active after one that has not, a delay
  without a sample, then open limit inactive and closed limit active.
\<close>

theorem f_error_dlsa_recovery_witness:
  "\<exists>m'. f_error (at_poll EST_ERROR ERR_DLSA 0 True True False False False)
          ([[pins False False False False False, pins True True False False False], []]
             @ [pins False True False False False] # [[]])
        = Returned EST_INIT_CONFIG m' [[]] \<and>
        f_init_config (m'\<lparr>estado_actual := EST_INIT_CONFIG\<rparr>)
          = (EST_CERRADO, snd (f_init_config (m'\<lparr>estado_actual := EST_INIT_CONFIG\<rparr>))) \<and>
        error_code (snd (f_init_config (m'\<lparr>estado_actual := EST_INIT_CONFIG\<rparr>))) = ERR_OK"
  using f_error_dlsa_recovery
    [of "at_poll EST_ERROR ERR_DLSA 0 True True False False False"
        "[[pins False False False False False, pins True True False False False], []]"
        "[pins False True False False False]" "[[]]"]
  by (auto simp: input_defs prod_eq_iff)

subsection \<open>Timeout fault (C5)\<close>

lemma f_error_grave_blocks:
  assumes "error_code m \<noteq> ERR_DLSA"
  shows "\<exists>m'. f_error m tr = Blocked m' \<and> error_code m' = error_code m \<and>
           estado_actual m' = estado_actual m \<and>
           \<not> gpio_out m' PIN_MA \<and> \<not> gpio_out m' PIN_MC \<and>
           lamp (io m') = 1 \<and> gpio_out m' PIN_LAMP"
proof -
  let ?I = "\<lambda>x::machine. error_code x = error_code m \<and> estado_actual x = estado_actual m \<and>
           \<not> gpio_out x PIN_MA \<and> \<not> gpio_out x PIN_MC \<and>
           lamp (io x) = 1 \<and> gpio_out x PIN_LAMP"
  have "\<exists>m0. ?I m0 \<and>
      while_delay f_error_grave (f_error_entry m) tr = Blocked (snd (f_error_grave m0))"
  proof (rule while_delay_waits)
    fix x assume "?I x"
    then show "fst (f_error_grave x) = None \<and> ?I (snd (f_error_grave x))"
      by (simp add: f_error_grave_def)
  next
    fix x d assume "?I x"
    then show "?I (run_timer d x)" by simp
  next
    show "?I (f_error_entry m)" by (simp add: f_error_entry_outputs)
  qed
  with assms show ?thesis
    by (auto simp: f_error_def Let_def f_error_grave_def)
qed

text \<open>
  Claim C5.  In \<open>EST_ERROR\<close> with \<open>ERR_TIMEOUT\<close> a poll goes on waiting, and for every
  environment \<open>f_error\<close> is still in its loop when the environment ends.  So the main
  loop stays in \<open>EST_ERROR\<close> with \<open>ERR_TIMEOUT\<close>, both motor pins low and the lamp code
  1 (fault, lamp pin high), whatever the inputs do.
\<close>

theorem f_error_timeout_terminal:
  "estado_actual m = EST_ERROR \<and> error_code m = ERR_TIMEOUT \<longrightarrow>
     poll_estado m = (None, m) \<and>
     (\<exists>m'. f_error m tr = Blocked m' \<and> app_main m tr = m') \<and>
     estado_actual (app_main m tr) = EST_ERROR \<and>
     error_code (app_main m tr) = ERR_TIMEOUT \<and>
     \<not> gpio_out (app_main m tr) PIN_MA \<and>
     \<not> gpio_out (app_main m tr) PIN_MC \<and>
     lamp (io (app_main m tr)) = 1 \<and>
     gpio_out (app_main m tr) PIN_LAMP"
proof (intro impI, elim conjE)
  assume s: "estado_actual m = EST_ERROR" and e: "error_code m = ERR_TIMEOUT"
  from e have "error_code m \<noteq> ERR_DLSA" by simp
  from f_error_grave_blocks [OF this, of tr] obtain m' where
    b: "f_error m tr = Blocked m'" and k: "error_code m' = error_code m"
    "estado_actual m' = estado_actual m" "\<not> gpio_out m' PIN_MA" "\<not> gpio_out m' PIN_MC"
    "lamp (io m') = 1" "gpio_out m' PIN_LAMP"
    by blast
  from s b have a: "app_main m tr = m'"
    by (simp add: app_main.simps dispatch_def)
  have p: "poll_estado m = (None, m)"
    using s e by (simp add: poll_estado_def f_error_grave_def)
  from a b k s e p show "poll_estado m = (None, m) \<and>
     (\<exists>m'. f_error m tr = Blocked m' \<and> app_main m tr = m') \<and>
     estado_actual (app_main m tr) = EST_ERROR \<and>
     error_code (app_main m tr) = ERR_TIMEOUT \<and>
     \<not> gpio_out (app_main m tr) PIN_MA \<and>
     \<not> gpio_out (app_main m tr) PIN_MC \<and>
     lamp (io (app_main m tr)) = 1 \<and>
     gpio_out (app_main m tr) PIN_LAMP"
    by simp
qed

text \<open>Two timer samples with changing inputs leave the controller in Fault.\<close>

theorem f_error_timeout_terminal_witness:
  "estado_actual (app_main (at_poll EST_ERROR ERR_TIMEOUT 3601 False True False True True)
       [[pins False True False True False], [pins True False False False True]]) = EST_ERROR"
  using f_error_timeout_terminal
    [of "at_poll EST_ERROR ERR_TIMEOUT 3601 False True False True True"
        "[[pins False True False True False], [pins True False False False True]]"]
  by (simp add: input_defs)

subsection \<open>The Closing row (C6)\<close>



subsection \<open>The closing timeout (C7)\<close>

text \<open>
  Claim C7 as stated fails: a poll in Closing at tick 3601 with the closed limit
  inactive and the photocell active returns \<open>EST_ABRIENDO\<close> and leaves the error code
  at \<open>ERR_OK\<close>, since the photocell guard comes before the timeout guard.
\<close>

theorem f_cerrando_timeout_photocell_counterexample:
  "tick50ms (at_poll EST_CERRANDO ERR_OK 3601 False False True False False) = 3601 \<and>
   \<not> lsc (io (at_poll EST_CERRANDO ERR_OK 3601 False False True False False)) \<and>
   f_cerrando_guards (at_poll EST_CERRANDO ERR_OK 3601 False False True False False)
     = (Some EST_ABRIENDO, at_poll EST_CERRANDO ERR_OK 3601 False False True False False) \<and>
   error_code (at_poll EST_CERRANDO ERR_OK 3601 False False True False False) = ERR_OK"
  by (simp add: f_cerrando_guards_def input_defs)

text \<open>
  Claim C7, amended.  The threshold \<open>MAX_TICKS_3MIN\<close> is 3600.  A poll in Closing with
  the photocell and the closed limit both inactive returns \<open>EST_ERROR\<close> with
  \<open>ERR_TIMEOUT\<close> at tick 3601, and in general exactly when the tick is strictly above
  the threshold; up to and including the threshold the loop goes on.
\<close>

theorem f_cerrando_timeout:
  "unat MAX_TICKS_3MIN = 3600 \<and>
   (\<not> ftc (io p) \<and> \<not> lsc (io p) \<longrightarrow>
      (tick50ms p = 3601 \<longrightarrow>
         f_cerrando_guards p = (Some EST_ERROR, p\<lparr>error_code := ERR_TIMEOUT\<rparr>)) \<and>
      (f_cerrando_guards p = (Some EST_ERROR, p\<lparr>error_code := ERR_TIMEOUT\<rparr>))
         = (MAX_TICKS_3MIN < tick50ms p) \<and>
      (f_cerrando_guards p = (None, p)) = (tick50ms p \<le> MAX_TICKS_3MIN))"
proof -
  have c: "unat MAX_TICKS_3MIN = 3600"
    by (simp add: MAX_TICKS_3MIN_def)
  have g: "f_cerrando_guards p =
      (if MAX_TICKS_3MIN < tick50ms p then (Some EST_ERROR, p\<lparr>error_code := ERR_TIMEOUT\<rparr>)
       else (None, p))"
    if "\<not> ftc (io p)" "\<not> lsc (io p)"
    using that by (simp add: f_cerrando_guards_def)
  have t: "MAX_TICKS_3MIN < (3601 :: 32 word)"
    by (simp add: MAX_TICKS_3MIN_def)
  show ?thesis
    using c g t by (auto simp: not_less)
qed

text \<open>Ticks 3601 and 3600 with every input inactive.\<close>

theorem f_cerrando_timeout_witness:
  "f_cerrando_guards (at_poll EST_CERRANDO ERR_OK 3601 False False False False False)
     = (Some EST_ERROR, at_poll EST_CERRANDO ERR_TIMEOUT 3601 False False False False False) \<and>
   f_cerrando_guards (at_poll EST_CERRANDO ERR_OK 3600 False False False False False)
     = (None, at_poll EST_CERRANDO ERR_OK 3600 False False False False False)"
  using f_cerrando_timeout [of "at_poll EST_CERRANDO ERR_OK 3601 False False False False False"]
    f_cerrando_timeout [of "at_poll EST_CERRANDO ERR_OK 3600 False False False False False"]
  by (simp add: input_defs MAX_TICKS_3MIN_def)

subsection \<open>Repeated polls (C8)\<close>

text \<open>
  Claim C8.  If a poll of the current state goes on waiting, it changes nothing but
  possibly the tick (reset to zero by the photocell branch of Open), and a second poll
  with the same inputs goes on waiting as well, both with the tick the first poll left
  and with the tick it started from.
\<close>

theorem poll_estado_fixed_point:
  "poll_estado m = (None, m') \<longrightarrow>
     estado_actual m' = estado_actual m \<and> error_code m' = error_code m \<and> io m' = io m \<and>
     gpio_out m' = gpio_out m \<and>
     (tick50ms m' = tick50ms m \<or> tick50ms m' = 0) \<and>
     fst (poll_estado m') = None \<and>
     fst (poll_estado (m'\<lparr>tick50ms := tick50ms m\<rparr>)) = None"
proof
  assume p: "poll_estado m = (None, m')"
  show "estado_actual m' = estado_actual m \<and> error_code m' = error_code m \<and> io m' = io m \<and>
     gpio_out m' = gpio_out m \<and>
     (tick50ms m' = tick50ms m \<or> tick50ms m' = 0) \<and>
     fst (poll_estado m') = None \<and>
     fst (poll_estado (m'\<lparr>tick50ms := tick50ms m\<rparr>)) = None"
  proof (cases "estado_actual m")
    case EST_INIT_CONFIG
    with p show ?thesis by (simp add: poll_estado_def split: prod.splits)
  next
    case EST_CERRANDO
    with p show ?thesis
      by (auto simp: poll_estado_def f_cerrando_guards_def split: if_splits)
  next
    case EST_ABRIENDO
    with p show ?thesis
      by (auto simp: poll_estado_def f_abriendo_guards_def split: if_splits)
  next
    case EST_ABIERTO
    with p show ?thesis
      by (auto simp: poll_estado_def f_abierto_guards_def split: if_splits)
  next
    case EST_CERRADO
    with p show ?thesis
      by (auto simp: poll_estado_def f_cerrado_guards_def split: if_splits)
  next
    case EST_PARADO
    with p show ?thesis
      by (auto simp: poll_estado_def f_parado_guards_def split: if_splits)
  next
    case EST_ERROR
    with p show ?thesis
      by (auto simp: poll_estado_def f_error_dlsa_wait_def f_error_grave_def split: if_splits)
  qed
qed

text \<open>Open with the photocell active at tick 17.\<close>

theorem poll_estado_fixed_point_witness:
  "poll_estado (at_poll EST_ABIERTO ERR_OK 17 True False True True False)
     = (None, at_poll EST_ABIERTO ERR_OK 0 True False True True False) \<and>
   fst (poll_estado (at_poll EST_ABIERTO ERR_OK 0 True False True True False)) = None \<and>
   fst (poll_estado (at_poll EST_ABIERTO ERR_OK 17 True False True True False)) = None"
  using poll_estado_fixed_point
    [of "at_poll EST_ABIERTO ERR_OK 17 True False True True False"
        "at_poll EST_ABIERTO ERR_OK 0 True False True True False"]
  by (simp add: input_defs poll_estado_def f_abierto_guards_def)

subsection \<open>Fault codes without exit (C9)\<close>

text \<open>
  Claim C9.  With any error code other than \<open>ERR_DLSA\<close>, and in particular with
  \<open>ERR_OK\<close>, \<open>f_error\<close> never returns: for every environment it is still in its loop,
  with the error code unchanged, both motor pins low and the lamp code 1.  There is an
  environment for which \<open>f_error\<close> returns exactly when the error code is \<open>ERR_DLSA\<close>.
\<close>

theorem f_error_only_dlsa_exits:
  "(error_code m \<noteq> ERR_DLSA \<longrightarrow>
      (\<exists>m'. f_error m tr = Blocked m' \<and> error_code m' = error_code m \<and>
            \<not> gpio_out m' PIN_MA \<and> \<not> gpio_out m' PIN_MC \<and>
            lamp (io m') = 1 \<and> gpio_out m' PIN_LAMP)) \<and>
   (\<exists>m'. f_error (m\<lparr>error_code := ERR_OK\<rparr>) tr = Blocked m') \<and>
   ((\<exists>tr' e m' rest. f_error m tr' = Returned e m' rest) = (error_code m = ERR_DLSA))"
proof -
  have a: "\<exists>m'. f_error m tr = Blocked m' \<and> error_code m' = error_code m \<and>
            \<not> gpio_out m' PIN_MA \<and> \<not> gpio_out m' PIN_MC \<and>
            lamp (io m') = 1 \<and> gpio_out m' PIN_LAMP"
    if "error_code m \<noteq> ERR_DLSA"
    using f_error_grave_blocks [OF that, of tr] by blast
  have b: "\<exists>m'. f_error (m\<lparr>error_code := ERR_OK\<rparr>) tr = Blocked m'"
    using f_error_grave_blocks [of "m\<lparr>error_code := ERR_OK\<rparr>" tr] by auto
  have c: "error_code m = ERR_DLSA" if "f_error m tr' = Returned e m' rest" for tr' e m' rest
  proof (rule ccontr)
    assume "error_code m \<noteq> ERR_DLSA"
    from f_error_grave_blocks [OF this, of tr'] that show False by auto
  qed
  have d: "\<exists>tr' e m' rest. f_error m tr' = Returned e m' rest" if "error_code m = ERR_DLSA"
  proof -
    have "\<exists>m'. f_error m [[pins False False False False False]] = Returned EST_INIT_CONFIG m' []
        \<or> f_error m [[pins False False False False False]]
            = Returned EST_INIT_CONFIG m' [[pins False False False False False]]"
      using that
      by (simp add: f_error_def Let_def f_error_dlsa_wait_def timer_cb_def)
    then show ?thesis by blast
  qed
  from a b c d show ?thesis by blast
qed

text \<open>\<open>EST_ERROR\<close> entered with \<open>ERR_OK\<close> and the limits consistent: still blocked.\<close>

theorem f_error_only_dlsa_exits_witness:
  "\<exists>m'. f_error (at_poll EST_ERROR ERR_OK 0 False True False True True)
       [[pins False True False False False]] = Blocked m' \<and> lamp (io m') = 1"
  using f_error_only_dlsa_exits
    [of "at_poll EST_ERROR ERR_OK 0 False True False True True"
        "[[pins False True False False False]]"]
  by (auto simp: input_defs)

subsection \<open>The fallback of Initializing (C10)\<close>

text \<open>
  Claim C10.  \<open>f_init_config\<close> never leaves through its last \<open>return\<close>.  For every
  value of the inputs exactly one of the four guards before it is the one that fires:
  both limits active, both limits inactive, closed limit active (reached with the open
  limit inactive), open limit active (reached with the closed limit inactive).  The
  result is the cascade of these four guards alone.
\<close>

theorem f_init_config_fallback_unreachable:
  "init_exit_of i \<noteq> EXIT_FALLBACK \<and>
   (init_exit_of i = EXIT_DLSA) = (lsa i \<and> lsc i) \<and>
   (init_exit_of i = EXIT_BOTH_OFF) = (\<not> lsa i \<and> \<not> lsc i) \<and>
   (init_exit_of i = EXIT_LSC) = (lsc i \<and> \<not> lsa i) \<and>
   (init_exit_of i = EXIT_LSA) = (lsa i \<and> \<not> lsc i) \<and>
   f_init_config m =
     (if lsa (io m) \<and> lsc (io m)
        then (EST_ERROR, (f_init_config_entry m)\<lparr>error_code := ERR_DLSA\<rparr>)
      else if \<not> lsa (io m) \<and> \<not> lsc (io m) then (EST_CERRANDO, f_init_config_entry m)
      else if lsc (io m) then (EST_CERRADO, f_init_config_entry m)
      else (EST_ABIERTO, f_init_config_entry m))"
proof -
  have a: "init_exit_of i \<noteq> EXIT_FALLBACK"
    by (simp add: init_exit_of_def)
  have b: "(init_exit_of i = EXIT_DLSA) = (lsa i \<and> lsc i)"
    by (simp add: init_exit_of_def)
  have c: "(init_exit_of i = EXIT_BOTH_OFF) = (\<not> lsa i \<and> \<not> lsc i)"
    by (simp add: init_exit_of_def)
  have d: "(init_exit_of i = EXIT_LSC) = (lsc i \<and> \<not> lsa i)"
    by (auto simp: init_exit_of_def)
  have e: "(init_exit_of i = EXIT_LSA) = (lsa i \<and> \<not> lsc i)"
    by (auto simp: init_exit_of_def)
  have f: "f_init_config m =
     (if lsa (io m) \<and> lsc (io m)
        then (EST_ERROR, (f_init_config_entry m)\<lparr>error_code := ERR_DLSA\<rparr>)
      else if \<not> lsa (io m) \<and> \<not> lsc (io m) then (EST_CERRANDO, f_init_config_entry m)
      else if lsc (io m) then (EST_CERRADO, f_init_config_entry m)
      else (EST_ABIERTO, f_init_config_entry m))"
    by (auto simp: f_init_config_def init_exit_of_def Let_def)
  from a b c d e f show ?thesis by blast
qed

text \<open>With only the open limit active the fourth guard fires and the result is Open.\<close>

theorem f_init_config_fallback_unreachable_witness:
  "init_exit_of (io (at_poll EST_INIT_CONFIG ERR_OK 0 True False False False False)) = EXIT_LSA \<and>
   fst (f_init_config (at_poll EST_INIT_CONFIG ERR_OK 0 True False False False False))
     = EST_ABIERTO"
  using f_init_config_fallback_unreachable
    [of "io (at_poll EST_INIT_CONFIG ERR_OK 0 True False False False False)"
        "at_poll EST_INIT_CONFIG ERR_OK 0 True False False False False"]
  by (simp add: input_defs)

end
